theory Spec2Isabelle
  imports Main
begin

section \<open>Byte strings and UTF-8\<close>

text \<open>
  A Go \<^verbatim>\<open>string\<close> is a sequence of bytes.  Isabelle's \<^typ>\<open>char\<close> is an 8-bit
  character, so a Go string is a \<^typ>\<open>string\<close>.  The functions of this section
  are the parts of the packages \<^verbatim>\<open>unicode/utf8\<close> and \<^verbatim>\<open>unicode/utf16\<close>
  that \<^verbatim>\<open>encoding/json\<close> calls.
\<close>

definition byte :: "char \<Rightarrow> nat" where
  "byte c = of_char c"

definition chr :: "nat \<Rightarrow> char" where
  "chr n = char_of n"

definition DQ :: char where
  "DQ = CHR 0x22"

definition BSL :: char where
  "BSL = CHR 0x5C"

definition NL :: char where
  "NL = CHR 0x0A"

definition is_cont :: "char \<Rightarrow> bool" where
  "is_cont c = (0x80 \<le> byte c \<and> byte c \<le> 0xBF)"

text \<open>
  \<^verbatim>\<open>utf8.DecodeRune\<close> as far as the callers need it: the number of bytes of the
  well-formed encoding at the head of the input, and 0 where \<^verbatim>\<open>DecodeRune\<close>
  answers \<^verbatim>\<open>(RuneError, 1)\<close> (or the input is empty).
\<close>

fun utf8_size :: "string \<Rightarrow> nat" where
  "utf8_size [] = 0"
| "utf8_size (c # cs) =
     (let b = byte c in
      if b < 0x80 then 1
      else if b < 0xC2 then 0
      else if b < 0xE0 then
        (case cs of c1 # _ \<Rightarrow> if is_cont c1 then 2 else 0 | _ \<Rightarrow> 0)
      else if b < 0xF0 then
        (case cs of
           c1 # c2 # _ \<Rightarrow>
             if (if b = 0xE0 then 0xA0 else 0x80) \<le> byte c1
                \<and> byte c1 \<le> (if b = 0xED then 0x9F else 0xBF) \<and> is_cont c2
             then 3 else 0
         | _ \<Rightarrow> 0)
      else if b < 0xF5 then
        (case cs of
           c1 # c2 # c3 # _ \<Rightarrow>
             if (if b = 0xF0 then 0x90 else 0x80) \<le> byte c1
                \<and> byte c1 \<le> (if b = 0xF4 then 0x8F else 0xBF) \<and> is_cont c2 \<and> is_cont c3
             then 4 else 0
         | _ \<Rightarrow> 0)
      else 0)"

text \<open>\<^verbatim>\<open>utf8.AppendRune\<close>: surrogates and values past U+10FFFF become U+FFFD.\<close>

definition replacement :: string where
  "replacement = [CHR 0xEF, CHR 0xBF, CHR 0xBD]"

definition utf8_encode :: "nat \<Rightarrow> string" where
  "utf8_encode r =
     (if r < 0x80 then [chr r]
      else if r < 0x800 then [chr (0xC0 + r div 64), chr (0x80 + r mod 64)]
      else if (0xD800 \<le> r \<and> r < 0xE000) \<or> 0x10FFFF < r then replacement
      else if r < 0x10000 then
        [chr (0xE0 + r div 4096), chr (0x80 + r div 64 mod 64), chr (0x80 + r mod 64)]
      else
        [chr (0xF0 + r div 262144), chr (0x80 + r div 4096 mod 64),
         chr (0x80 + r div 64 mod 64), chr (0x80 + r mod 64)])"

definition is_digit :: "char \<Rightarrow> bool" where
  "is_digit c = (byte (CHR ''0'') \<le> byte c \<and> byte c \<le> byte (CHR ''9''))"

definition is_hex :: "char \<Rightarrow> bool" where
  "is_hex c =
     (is_digit c \<or> (byte (CHR ''a'') \<le> byte c \<and> byte c \<le> byte (CHR ''f''))
      \<or> (byte (CHR ''A'') \<le> byte c \<and> byte c \<le> byte (CHR ''F'')))"

definition hex_val :: "char \<Rightarrow> nat" where
  "hex_val c =
     (if is_digit c then byte c - byte (CHR ''0'')
      else if byte (CHR ''a'') \<le> byte c then byte c - byte (CHR ''a'') + 10
      else byte c - byte (CHR ''A'') + 10)"

text \<open>
  \<^verbatim>\<open>getu4\<close> of \<^verbatim>\<open>encoding/json\<close>: the value of a \<^verbatim>\<open>\uXXXX\<close> escape at the
  head of the input, if there is one.
\<close>

definition getu4 :: "string \<Rightarrow> nat option" where
  "getu4 s =
     (case s of
        b # u # h1 # h2 # h3 # h4 # _ \<Rightarrow>
          if b = BSL \<and> u = CHR ''u'' \<and> is_hex h1 \<and> is_hex h2 \<and> is_hex h3 \<and> is_hex h4
          then Some (((hex_val h1 * 16 + hex_val h2) * 16 + hex_val h3) * 16 + hex_val h4)
          else None
      | _ \<Rightarrow> None)"

section \<open>JSON values and the scanner of \<^verbatim>\<open>encoding/json\<close>\<close>

datatype json =
    JNull
  | JBool bool
  | JNumber string
  | JString string
  | JArray "json list"
  | JObject "(string \<times> json) list"

datatype token =
    TLBrace | TRBrace | TLBracket | TRBracket | TColon | TComma
  | TString string | TNumber string | TTrue | TFalse | TNull

definition is_space :: "char \<Rightarrow> bool" where
  "is_space c = (c = CHR '' '' \<or> c = CHR 0x09 \<or> c = CHR 0x0D \<or> c = CHR 0x0A)"

text \<open>
  The text of a string literal after its opening quote: the raw bytes up to the
  closing quote and the input after it.  A byte below 0x20 and a backslash that
  does not start one of the escapes of JSON are syntax errors.
\<close>

fun scan_string :: "string \<Rightarrow> (string \<times> string) option" where
  "scan_string [] = None"
| "scan_string (c # cs) =
     (if c = DQ then Some ([], cs)
      else if c = BSL then
        (case cs of
           [] \<Rightarrow> None
         | e # es \<Rightarrow>
             if e \<in> set [DQ, BSL, CHR ''/'', CHR ''b'', CHR ''f'', CHR ''n'', CHR ''r'', CHR ''t'']
             then map_option (\<lambda>(raw, rest). (c # e # raw, rest)) (scan_string es)
             else if e = CHR ''u'' \<and> 4 \<le> length es \<and> list_all is_hex (take 4 es)
             then map_option (\<lambda>(raw, rest). (c # e # take 4 es @ raw, rest))
                    (scan_string (drop 4 es))
             else None)
      else if byte c < 0x20 then None
      else map_option (\<lambda>(raw, rest). (c # raw, rest)) (scan_string cs))"

text \<open>
  \<^verbatim>\<open>unquote\<close>: the value of a scanned string literal.  Escapes are replaced, a
  \<^verbatim>\<open>\u\<close> escape by the UTF-8 encoding of its code point (two escapes that form a
  surrogate pair by the encoding of the pair's code point, a surrogate with no
  partner by U+FFFD), and every byte that is not part of well-formed UTF-8 by
  U+FFFD.
\<close>

definition unescape :: "char \<Rightarrow> char" where
  "unescape e =
     (if e = CHR ''b'' then CHR 0x08
      else if e = CHR ''f'' then CHR 0x0C
      else if e = CHR ''n'' then CHR 0x0A
      else if e = CHR ''r'' then CHR 0x0D
      else if e = CHR ''t'' then CHR 0x09
      else e)"

function unquote :: "string \<Rightarrow> string" where
  "unquote [] = []"
| "unquote (c # cs) =
     (if c = BSL then
        (case getu4 (c # cs) of
           Some rr \<Rightarrow>
             if 0xD800 \<le> rr \<and> rr < 0xE000 then
               (case getu4 (drop 5 cs) of
                  Some rr1 \<Rightarrow>
                    if rr < 0xDC00 \<and> 0xDC00 \<le> rr1 \<and> rr1 < 0xE000
                    then utf8_encode ((rr - 0xD800) * 1024 + (rr1 - 0xDC00) + 0x10000)
                           @ unquote (drop 11 cs)
                    else replacement @ unquote (drop 5 cs)
                | None \<Rightarrow> replacement @ unquote (drop 5 cs))
             else utf8_encode rr @ unquote (drop 5 cs)
         | None \<Rightarrow>
             (case cs of [] \<Rightarrow> [] | e # es \<Rightarrow> unescape e # unquote es))
      else if byte c < 0x80 then c # unquote cs
      else if utf8_size (c # cs) = 0 then replacement @ unquote cs
      else take (utf8_size (c # cs)) (c # cs) @ unquote (drop (utf8_size (c # cs)) (c # cs)))"
  by pat_completeness auto
termination
  by (relation "measure length") (auto simp: Let_def split: list.splits if_splits)

text \<open>
  A number literal at the head of the input:
  \<^verbatim>\<open>-? (0 | [1-9][0-9]*) (. [0-9]+)? ([eE] [+-]? [0-9]+)?\<close>.
\<close>

definition scan_digits :: "string \<Rightarrow> (string \<times> string) option" where
  "scan_digits s =
     (if takeWhile is_digit s = [] then None
      else Some (takeWhile is_digit s, dropWhile is_digit s))"

definition scan_int :: "string \<Rightarrow> (string \<times> string) option" where
  "scan_int s =
     (case s of
        [] \<Rightarrow> None
      | c # cs \<Rightarrow>
          if c = CHR ''0'' then Some ([c], cs)
          else if is_digit c then Some (c # takeWhile is_digit cs, dropWhile is_digit cs)
          else None)"

definition scan_frac :: "string \<Rightarrow> (string \<times> string) option" where
  "scan_frac s =
     (case s of
        c # cs \<Rightarrow>
          if c = CHR ''.'' then map_option (\<lambda>(ds, rest). (c # ds, rest)) (scan_digits cs)
          else Some ([], s)
      | [] \<Rightarrow> Some ([], s))"

definition scan_exp :: "string \<Rightarrow> (string \<times> string) option" where
  "scan_exp s =
     (case s of
        c # cs \<Rightarrow>
          if c = CHR ''e'' \<or> c = CHR ''E'' then
            (case cs of
               g # gs \<Rightarrow>
                 if g = CHR ''+'' \<or> g = CHR ''-''
                 then map_option (\<lambda>(ds, rest). (c # g # ds, rest)) (scan_digits gs)
                 else map_option (\<lambda>(ds, rest). (c # ds, rest)) (scan_digits cs)
             | [] \<Rightarrow> None)
          else Some ([], s)
      | [] \<Rightarrow> Some ([], s))"

definition scan_number :: "string \<Rightarrow> (string \<times> string) option" where
  "scan_number s =
     (let (sign, s1) = (case s of c # cs \<Rightarrow> if c = CHR ''-'' then ([c], cs) else ([], s)
                        | [] \<Rightarrow> ([], s))
      in case scan_int s1 of
           None \<Rightarrow> None
         | Some (i, s2) \<Rightarrow>
             (case scan_frac s2 of
                None \<Rightarrow> None
              | Some (f, s3) \<Rightarrow>
                  (case scan_exp s3 of
                     None \<Rightarrow> None
                   | Some (e, s4) \<Rightarrow> Some (sign @ i @ f @ e, s4))))"

lemma scan_string_shorter:
  "scan_string cs = Some (raw, rest) \<Longrightarrow> length rest < Suc (length cs)"
proof (induction cs arbitrary: raw rest rule: scan_string.induct)
  case 1
  then show ?case by simp
next
  case (2 c cs)
  show ?case
  proof (cases "c = DQ")
    case True
    with 2(4) show ?thesis by simp
  next
    case ndq: False
    show ?thesis
    proof (cases "c = BSL")
      case True
      show ?thesis
      proof (cases cs)
        case Nil
        with 2(4) ndq True show ?thesis by simp
      next
        case (Cons e es)
        consider (simple) "e \<in> set [DQ, BSL, CHR ''/'', CHR ''b'', CHR ''f'', CHR ''n'', CHR ''r'', CHR ''t'']"
          | (uni) "e \<notin> set [DQ, BSL, CHR ''/'', CHR ''b'', CHR ''f'', CHR ''n'', CHR ''r'', CHR ''t'']"
                  "e = CHR ''u'' \<and> 4 \<le> length es \<and> list_all is_hex (take 4 es)"
          | (bad) "e \<notin> set [DQ, BSL, CHR ''/'', CHR ''b'', CHR ''f'', CHR ''n'', CHR ''r'', CHR ''t'']"
                  "\<not> (e = CHR ''u'' \<and> 4 \<le> length es \<and> list_all is_hex (take 4 es))"
          by blast
        then show ?thesis
        proof cases
          case simple
          with 2(4) ndq True Cons obtain raw' where "scan_string es = Some (raw', rest)"
            by (auto simp del: set_simps)
          from 2(1)[OF ndq True Cons simple this] Cons show ?thesis by simp
        next
          case uni
          with 2(4) ndq True Cons obtain raw' where "scan_string (drop 4 es) = Some (raw', rest)"
            by (auto simp del: set_simps)
          from 2(2)[OF ndq True Cons uni this] Cons show ?thesis by simp
        next
          case bad
          with 2(4) ndq True Cons show ?thesis by (auto simp del: set_simps)
        qed
      qed
    next
      case False
      show ?thesis
      proof (cases "byte c < 0x20")
        case True
        with 2(4) ndq False show ?thesis by simp
      next
        case nc: False
        with 2(4) ndq False obtain raw' where "scan_string cs = Some (raw', rest)"
          by auto
        from 2(3)[OF ndq False nc this] show ?thesis by simp
      qed
    qed
  qed
qed

lemma scan_number_shorter:
  "scan_number s = Some (lit, rest) \<Longrightarrow> length rest < length s"
proof -
  have d: "\<And>s ds r. scan_digits s = Some (ds, r) \<Longrightarrow> length r \<le> length s"
    by (auto simp: scan_digits_def length_dropWhile_le split: if_splits)
  have i: "\<And>s ds r. scan_int s = Some (ds, r) \<Longrightarrow> length r < length s"
    by (auto simp: scan_int_def length_dropWhile_le less_Suc_eq_le split: list.splits if_splits)
  have f: "\<And>s ds r. scan_frac s = Some (ds, r) \<Longrightarrow> length r \<le> length s"
    by (auto simp: scan_frac_def split: list.splits if_splits dest!: d)
  have e: "\<And>s ds r. scan_exp s = Some (ds, r) \<Longrightarrow> length r \<le> length s"
    by (auto simp: scan_exp_def split: list.splits if_splits dest!: d)
  assume "scan_number s = Some (lit, rest)"
  then show ?thesis
    by (auto simp: scan_number_def split: list.splits if_splits option.splits prod.splits
             dest!: i f e)
qed

text \<open>
  The tokens of a JSON text, or \<open>None\<close> where the scanner stops at a byte that
  starts no token.  String tokens carry the unquoted value.
\<close>

function lex :: "string \<Rightarrow> token list option" where
  "lex [] = Some []"
| "lex (c # cs) =
     (if is_space c then lex cs
      else if c = CHR ''{'' then map_option ((#) TLBrace) (lex cs)
      else if c = CHR ''}'' then map_option ((#) TRBrace) (lex cs)
      else if c = CHR ''['' then map_option ((#) TLBracket) (lex cs)
      else if c = CHR '']'' then map_option ((#) TRBracket) (lex cs)
      else if c = CHR '':'' then map_option ((#) TColon) (lex cs)
      else if c = CHR '','' then map_option ((#) TComma) (lex cs)
      else if c = DQ then
        (case scan_string cs of
           None \<Rightarrow> None
         | Some (raw, rest) \<Rightarrow> map_option ((#) (TString (unquote raw))) (lex rest))
      else if c = CHR ''-'' \<or> is_digit c then
        (case scan_number (c # cs) of
           None \<Rightarrow> None
         | Some (lit, rest) \<Rightarrow> map_option ((#) (TNumber lit)) (lex rest))
      else if c = CHR ''t'' \<and> take 3 cs = ''rue'' then map_option ((#) TTrue) (lex (drop 3 cs))
      else if c = CHR ''f'' \<and> take 4 cs = ''alse'' then map_option ((#) TFalse) (lex (drop 4 cs))
      else if c = CHR ''n'' \<and> take 3 cs = ''ull'' then map_option ((#) TNull) (lex (drop 3 cs))
      else None)"
  by pat_completeness auto
termination
  by (relation "measure length")
     (auto dest: scan_string_shorter dest!: scan_number_shorter)

text \<open>
  The value a token sequence denotes.  The scanner of \<^verbatim>\<open>encoding/json\<close> keeps a
  stack with one entry per open array or object (at most \<^verbatim>\<open>maxNestingDepth\<close> of
  them) and a state that says what may come next; the model keeps the elements
  read so far in the stack entries.
\<close>

datatype frame =
    InArray "json list"
  | InObject "(string \<times> json) list"
  | InMember "(string \<times> json) list" string

datatype expect = Value | ValueOrClose | KeyOrClose | Key | Colon | CommaOrClose

datatype pstate = Scanning expect "frame list" | Done json

definition maxNestingDepth :: nat where
  "maxNestingDepth = 10000"

fun end_value :: "json \<Rightarrow> frame list \<Rightarrow> pstate option" where
  "end_value v [] = Some (Done v)"
| "end_value v (InArray acc # st) = Some (Scanning CommaOrClose (InArray (v # acc) # st))"
| "end_value v (InMember acc k # st) = Some (Scanning CommaOrClose (InObject ((k, v) # acc) # st))"
| "end_value v (InObject acc # st) = None"

definition push :: "expect \<Rightarrow> frame \<Rightarrow> frame list \<Rightarrow> pstate option" where
  "push e f st = (if length st < maxNestingDepth then Some (Scanning e (f # st)) else None)"

fun scalar :: "token \<Rightarrow> json option" where
  "scalar (TString s) = Some (JString s)"
| "scalar (TNumber n) = Some (JNumber n)"
| "scalar TTrue = Some (JBool True)"
| "scalar TFalse = Some (JBool False)"
| "scalar TNull = Some JNull"
| "scalar _ = None"

fun step :: "pstate \<Rightarrow> token \<Rightarrow> pstate option" where
  "step (Done v) t = None"
| "step (Scanning e st) t =
     (if e = Value \<or> e = ValueOrClose then
        (if t = TLBracket then push ValueOrClose (InArray []) st
         else if t = TLBrace then push KeyOrClose (InObject []) st
         else if t = TRBracket \<and> e = ValueOrClose then
           (case st of InArray acc # st' \<Rightarrow> end_value (JArray (rev acc)) st' | _ \<Rightarrow> None)
         else (case scalar t of Some v \<Rightarrow> end_value v st | None \<Rightarrow> None))
      else if e = KeyOrClose \<or> e = Key then
        (case (t, st) of
           (TString k, InObject acc # st') \<Rightarrow> Some (Scanning Colon (InMember acc k # st'))
         | (TRBrace, InObject acc # st') \<Rightarrow>
             if e = KeyOrClose then end_value (JObject (rev acc)) st' else None
         | _ \<Rightarrow> None)
      else if e = Colon then (if t = TColon then Some (Scanning Value st) else None)
      else
        (case (t, st) of
           (TComma, InArray acc # st') \<Rightarrow> Some (Scanning Value st)
         | (TComma, InObject acc # st') \<Rightarrow> Some (Scanning Key st)
         | (TRBracket, InArray acc # st') \<Rightarrow> end_value (JArray (rev acc)) st'
         | (TRBrace, InObject acc # st') \<Rightarrow> end_value (JObject (rev acc)) st'
         | _ \<Rightarrow> None))"

fun steps :: "pstate \<Rightarrow> token list \<Rightarrow> json option" where
  "steps (Done v) [] = Some v"
| "steps (Scanning e st) [] = None"
| "steps s (t # ts) = (case step s t of None \<Rightarrow> None | Some s' \<Rightarrow> steps s' ts)"

definition parse_json :: "string \<Rightarrow> json option" where
  "parse_json data =
     (case lex data of None \<Rightarrow> None | Some ts \<Rightarrow> steps (Scanning Value []) ts)"

section \<open>\<^verbatim>\<open>json.Unmarshal\<close> into the types of the program\<close>

text \<open>
  The \<^verbatim>\<open>error\<close> values the program can meet.  The program only prints an error
  (\<^verbatim>\<open>err.Error()\<close>) and never inspects it, so an error is modelled by its kind;
  for the errors of the HTTP client the text comes with the environment.
\<close>

datatype go_error =
    FlagError string
  | TransportError string
  | ReadError string
  | SyntaxError
  | UnmarshalTypeError
  | MarshalError

text \<open>A Go slice is \<^verbatim>\<open>nil\<close> or holds a sequence of elements.\<close>

datatype 'a slice = NilSlice | Slice "'a list"

fun elems :: "'a slice \<Rightarrow> 'a list" where
  "elems NilSlice = []"
| "elems (Slice xs) = xs"

fun append_slice :: "'a slice \<Rightarrow> 'a \<Rightarrow> 'a slice" where
  "append_slice NilSlice x = Slice [x]"
| "append_slice (Slice xs) x = Slice (xs @ [x])"

definition to_upper :: "char \<Rightarrow> char" where
  "to_upper c =
     (if byte (CHR ''a'') \<le> byte c \<and> byte c \<le> byte (CHR ''z'') then chr (byte c - 32) else c)"

text \<open>
  How an object key selects a struct field: the key equals the field's JSON name,
  or equals it under Unicode simple case folding.  For an ASCII name the folding
  identifies the two cases of a letter, the long s (U+017F) with \<open>s\<close> and the
  Kelvin sign (U+212A) with \<open>k\<close>, and nothing else.
\<close>

fun equal_fold :: "string \<Rightarrow> string \<Rightarrow> bool" where
  "equal_fold [] key = (key = [])"
| "equal_fold (n # ns) key =
     (if to_upper n = CHR ''S'' \<and> take 2 key = [CHR 0xC5, CHR 0xBF] then equal_fold ns (drop 2 key)
      else if to_upper n = CHR ''K'' \<and> take 3 key = [CHR 0xE2, CHR 0x84, CHR 0xAA]
      then equal_fold ns (drop 3 key)
      else (case key of [] \<Rightarrow> False | c # cs \<Rightarrow> to_upper c = to_upper n \<and> equal_fold ns cs))"

text \<open>
  An object decoded into a struct whose only field is a \<^verbatim>\<open>string\<close> with the JSON
  name \<open>name\<close>: the members are visited in order; a member whose key selects the
  field stores a string value, leaves the field alone for \<^verbatim>\<open>null\<close>, and saves an
  \<^verbatim>\<open>UnmarshalTypeError\<close> for any other value; other members are skipped.  The
  state is the saved error and the field.
\<close>

fun object_into :: "string \<Rightarrow> (string \<times> json) list \<Rightarrow> go_error option \<times> string
                      \<Rightarrow> go_error option \<times> string" where
  "object_into name [] st = st"
| "object_into name ((k, v) # ms) (saved, field) =
     (if equal_fold name k then
        (case v of
           JString s \<Rightarrow> object_into name ms (saved, s)
         | JNull \<Rightarrow> object_into name ms (saved, field)
         | _ \<Rightarrow> object_into name ms
                  (if saved = None then Some UnmarshalTypeError else saved, field))
      else object_into name ms (saved, field))"

text \<open>
  \<^verbatim>\<open>json.Unmarshal(data, &v)\<close> for \<^verbatim>\<open>v\<close> a zero-valued struct with the single field
  \<^verbatim>\<open>string `json:"name"`\<close>; the result is the field.  The whole text is checked
  first; \<^verbatim>\<open>null\<close> leaves the struct as it is; a value that is neither an object
  nor \<^verbatim>\<open>null\<close> is an \<^verbatim>\<open>UnmarshalTypeError\<close>.
\<close>

definition unmarshal_field :: "string \<Rightarrow> string \<Rightarrow> go_error + string" where
  "unmarshal_field name data =
     (case parse_json data of
        None \<Rightarrow> Inl SyntaxError
      | Some JNull \<Rightarrow> Inr []
      | Some (JObject ms) \<Rightarrow>
          (case object_into name ms (None, []) of
             (Some e, _) \<Rightarrow> Inl e
           | (None, field) \<Rightarrow> Inr field)
      | Some _ \<Rightarrow> Inl UnmarshalTypeError)"

text \<open>
  \<^verbatim>\<open>json.Unmarshal(data, &sections)\<close> for \<^verbatim>\<open>sections\<close> a nil \<^verbatim>\<open>[]string\<close>:
  \<^verbatim>\<open>null\<close> leaves the slice nil; an array gives one element per array element, a
  string as it is and \<^verbatim>\<open>null\<close> as the empty string; an element or a value of
  another kind is an \<^verbatim>\<open>UnmarshalTypeError\<close>.
\<close>

fun string_element :: "json \<Rightarrow> string option" where
  "string_element (JString s) = Some s"
| "string_element JNull = Some []"
| "string_element _ = None"

definition unmarshal_strings :: "string \<Rightarrow> go_error + string slice" where
  "unmarshal_strings data =
     (case parse_json data of
        None \<Rightarrow> Inl SyntaxError
      | Some JNull \<Rightarrow> Inr NilSlice
      | Some (JArray vs) \<Rightarrow>
          if list_all (\<lambda>v. string_element v \<noteq> None) vs
          then Inr (Slice (map (\<lambda>v. the (string_element v)) vs))
          else Inl UnmarshalTypeError
      | Some _ \<Rightarrow> Inl UnmarshalTypeError)"

section \<open>\<^verbatim>\<open>json.Marshal\<close> and \<^verbatim>\<open>json.MarshalIndent\<close>\<close>

text \<open>
  A string as \<^verbatim>\<open>json.Marshal\<close> writes it (HTML escaping on, the default): between
  quotes, with the quote and the backslash escaped by a backslash, the control
  characters written as the two-character escapes for backspace, form feed,
  line feed, carriage return and tab or else as a six-character escape
  (backslash, u, 0, 0 and two hex digits), the characters \<^verbatim>\<open><\<close>, \<^verbatim>\<open>>\<close> and
  \<^verbatim>\<open>&\<close> as six-character escapes as well, U+2028 and U+2029 as the escapes u2028
  and u2029, and each byte that is not part of well-formed UTF-8 as the escape
  ufffd.  (Releases of Go before 1.22 write six-character escapes for backspace
  and form feed.)
\<close>

definition html_safe :: "char \<Rightarrow> bool" where
  "html_safe c =
     (0x20 \<le> byte c \<and> byte c < 0x80
      \<and> c \<noteq> DQ \<and> c \<noteq> BSL \<and> c \<noteq> CHR ''&'' \<and> c \<noteq> CHR ''<'' \<and> c \<noteq> CHR ''>'')"

definition hex_digit :: "nat \<Rightarrow> char" where
  "hex_digit n = ''0123456789abcdef'' ! (n mod 16)"

definition escape_byte :: "char \<Rightarrow> string" where
  "escape_byte c =
     (if c = BSL \<or> c = DQ then [BSL, c]
      else if c = CHR 0x08 then [BSL, CHR ''b'']
      else if c = CHR 0x0C then [BSL, CHR ''f'']
      else if c = CHR 0x0A then [BSL, CHR ''n'']
      else if c = CHR 0x0D then [BSL, CHR ''r'']
      else if c = CHR 0x09 then [BSL, CHR ''t'']
      else [BSL, CHR ''u'', CHR ''0'', CHR ''0'', hex_digit (byte c div 16), hex_digit (byte c)])"

function quote_body :: "string \<Rightarrow> string" where
  "quote_body [] = []"
| "quote_body (c # cs) =
     (if byte c < 0x80 then (if html_safe c then [c] else escape_byte c) @ quote_body cs
      else if utf8_size (c # cs) = 0 then BSL # ''ufffd'' @ quote_body cs
      else if take 3 (c # cs) = [CHR 0xE2, CHR 0x80, CHR 0xA8]
      then BSL # ''u2028'' @ quote_body (drop 2 cs)
      else if take 3 (c # cs) = [CHR 0xE2, CHR 0x80, CHR 0xA9]
      then BSL # ''u2029'' @ quote_body (drop 2 cs)
      else take (utf8_size (c # cs)) (c # cs) @ quote_body (drop (utf8_size (c # cs)) (c # cs)))"
  by pat_completeness auto
termination
  by (relation "measure length") (auto simp: Let_def split: list.splits if_splits)

definition quote :: "string \<Rightarrow> string" where
  "quote s = DQ # quote_body s @ [DQ]"

text \<open>The join of a list of texts with a separator between neighbours.\<close>

fun join :: "string \<Rightarrow> string list \<Rightarrow> string" where
  "join sep [] = []"
| "join sep [x] = x"
| "join sep (x # y # ys) = x @ sep @ join sep (y # ys)"

text \<open>
  The compact encoding of a value (\<^verbatim>\<open>json.Marshal\<close>) and its indented encoding
  (\<^verbatim>\<open>json.MarshalIndent\<close> with a prefix and an indent): each element of a
  non-empty array or object begins on a new line that starts with the prefix and
  one copy of the indent per level of nesting; a colon is followed by a space;
  an empty array or object stays \<^verbatim>\<open>[]\<close> or \<^verbatim>\<open>{}\<close>.
\<close>

fun compact :: "json \<Rightarrow> string" where
  "compact JNull = ''null''"
| "compact (JBool b) = (if b then ''true'' else ''false'')"
| "compact (JNumber n) = n"
| "compact (JString s) = quote s"
| "compact (JArray vs) = ''['' @ join '','' (map compact vs) @ '']''"
| "compact (JObject ms) =
     ''{'' @ join '','' (map (\<lambda>(k, v). quote k @ '':'' @ compact v) ms) @ ''}''"

definition newline :: "string \<Rightarrow> string \<Rightarrow> nat \<Rightarrow> string" where
  "newline prefix indent depth = NL # prefix @ concat (replicate depth indent)"

fun indented :: "string \<Rightarrow> string \<Rightarrow> nat \<Rightarrow> json \<Rightarrow> string" where
  "indented prefix indent d (JArray vs) =
     (if vs = [] then ''[]''
      else ''['' @ newline prefix indent (Suc d)
           @ join ('','' @ newline prefix indent (Suc d)) (map (indented prefix indent (Suc d)) vs)
           @ newline prefix indent d @ '']'')"
| "indented prefix indent d (JObject ms) =
     (if ms = [] then ''{}''
      else ''{'' @ newline prefix indent (Suc d)
           @ join ('','' @ newline prefix indent (Suc d))
               (map (\<lambda>(k, v). quote k @ '': '' @ indented prefix indent (Suc d) v) ms)
           @ newline prefix indent d @ ''}'')"
| "indented prefix indent d v = compact v"

section \<open>The program: \<^verbatim>\<open>analiseCmd\<close>\<close>

subsection \<open>What the process talks to\<close>

text \<open>
  \<^verbatim>\<open>http.Post(url, contentType, body)\<close> is a call into the world outside the
  process.  The world is a state machine: a state and a request give what the
  call returns and the next state.  The call returns an error (the request could
  not be sent or no response arrived) or a response, whose body \<^verbatim>\<open>ioutil.ReadAll\<close>
  then reads in full or fails to read.
\<close>

record request =
  URL :: string
  ContentType :: string
  Payload :: string

datatype response = HttpResponse (StatusCode: nat) (Body: "go_error + string")

type_synonym 's endpoint = "'s \<Rightarrow> request \<Rightarrow> (go_error + response) \<times> 's"

text \<open>
  Standard output is the sequence of lines the program prints.  \<^verbatim>\<open>Println\<close> is a
  line of known text; \<^verbatim>\<open>PrintlnErr\<close> is \<^verbatim>\<open>fmt.Println(text, err)\<close>, the text, a space
  and the error's message.  \<open>render\<close> gives the bytes, for a given wording of the
  error messages.
\<close>

datatype line = Println string | PrintlnErr string go_error

fun render_line :: "(go_error \<Rightarrow> string) \<Rightarrow> line \<Rightarrow> string" where
  "render_line msg (Println s) = s @ [NL]"
| "render_line msg (PrintlnErr s e) = s @ '' '' @ msg e @ [NL]"

definition render :: "(go_error \<Rightarrow> string) \<Rightarrow> line list \<Rightarrow> string" where
  "render msg out = concat (map (render_line msg) out)"

text \<open>
  The state of a run: what it has printed, the HTTP calls it has made with what
  each returned (a record kept for the statements below; the program does not
  read it), and the state of the world.
\<close>

record 's process =
  stdout :: "line list"
  exchanges :: "(request \<times> (go_error + response)) list"
  remote :: 's

definition start :: "'s \<Rightarrow> 's process" where
  "start s = \<lparr>stdout = [], exchanges = [], remote = s\<rparr>"

text \<open>A step of the program either ends the process (\<^verbatim>\<open>os.Exit(code)\<close>) or goes on.\<close>

datatype 'a ctl = Exit nat | Next 'a

definition println :: "string \<Rightarrow> 's process \<Rightarrow> 's process" where
  "println s p = p\<lparr>stdout := stdout p @ [Println s]\<rparr>"

definition println_err :: "string \<Rightarrow> go_error \<Rightarrow> 's process \<Rightarrow> 's process" where
  "println_err s err p = p\<lparr>stdout := stdout p @ [PrintlnErr s err]\<rparr>"

definition http_Post :: "'s endpoint \<Rightarrow> string \<Rightarrow> string \<Rightarrow> string \<Rightarrow> 's process
                          \<Rightarrow> (go_error + response) \<times> 's process" where
  "http_Post ep u ct b p =
     (let rq = \<lparr>URL = u, ContentType = ct, Payload = b\<rparr>;
          (r, s') = ep (remote p) rq
      in (r, p\<lparr>exchanges := exchanges p @ [(rq, r)], remote := s'\<rparr>))"

text \<open>
  The flags as \<^verbatim>\<open>init\<close> declares them (two string flags with the default \<^verbatim>\<open>""\<close>)
  and the command line sets them: \<open>None\<close> is a flag that was not given.
  \<^verbatim>\<open>GetString\<close> fails for a name that is not a declared string flag.
\<close>

record flags =
  llm_host :: "string option"
  translation_language :: "string option"

definition flag_value :: "string option \<Rightarrow> string" where
  "flag_value given = (case given of None \<Rightarrow> [] | Some v \<Rightarrow> v)"

definition GetString :: "flags \<Rightarrow> string \<Rightarrow> go_error + string" where
  "GetString fl name =
     (if name = ''llm-host'' then Inr (flag_value (llm_host fl))
      else if name = ''translation-language'' then Inr (flag_value (translation_language fl))
      else Inl (FlagError name))"

text \<open>\<^verbatim>\<open>os.Getenv\<close>: the value of a variable, \<^verbatim>\<open>""\<close> when it is not set.\<close>

type_synonym environ = "string \<Rightarrow> string option"

definition Getenv :: "environ \<Rightarrow> string \<Rightarrow> string" where
  "Getenv env name = (case env name of None \<Rightarrow> [] | Some v \<Rightarrow> v)"

text \<open>\<^verbatim>\<open>%d\<close> of a status code.\<close>

fun decimal :: "nat \<Rightarrow> string" where
  "decimal n = (if n < 10 then [chr (48 + n)] else decimal (n div 10) @ [chr (48 + n mod 10)])"

declare decimal.simps [simp del]

subsection \<open>The types and the prompts\<close>

text \<open>
  \<^verbatim>\<open>RequestPayload\<close> and \<^verbatim>\<open>TranslationPayload\<close> have the same fields with the same
  JSON names, so one record stands for both.  \<^verbatim>\<open>ResponsePayload\<close> and
  \<^verbatim>\<open>TranslationResponse\<close> are structs with one \<^verbatim>\<open>string\<close> field of the JSON name
  \<^verbatim>\<open>response\<close>; a value of either is modelled by that field.
\<close>

record RequestPayload =
  Model :: string
  Prompt :: string
  Stream :: bool

type_synonym TranslationPayload = RequestPayload

record ResultItem =
  Source :: string
  Translation :: string

definition payload_json :: "RequestPayload \<Rightarrow> json" where
  "payload_json p =
     JObject [(''model'', JString (Model p)), (''prompt'', JString (Prompt p)),
              (''stream'', JBool (Stream p))]"

definition item_json :: "ResultItem \<Rightarrow> json" where
  "item_json r =
     JObject [(''source'', JString (Source r)), (''translation'', JString (Translation r))]"

definition results_json :: "ResultItem slice \<Rightarrow> json" where
  "results_json results =
     (case results of NilSlice \<Rightarrow> JNull | Slice rs \<Rightarrow> JArray (map item_json rs))"

text \<open>
  \<^verbatim>\<open>json.Marshal\<close> and \<^verbatim>\<open>json.MarshalIndent\<close> return an error for values they cannot
  encode; strings, booleans, structs and slices of them are encoded.
\<close>

definition Marshal_payload :: "RequestPayload \<Rightarrow> go_error + string" where
  "Marshal_payload p = Inr (compact (payload_json p))"

definition MarshalIndent_results :: "ResultItem slice \<Rightarrow> string \<Rightarrow> string \<Rightarrow> go_error + string" where
  "MarshalIndent_results results prefix indent =
     Inr (indented prefix indent 0 (results_json results))"

definition Unmarshal_ResponsePayload :: "string \<Rightarrow> go_error + string" where
  "Unmarshal_ResponsePayload data = unmarshal_field ''response'' data"

definition Unmarshal_TranslationResponse :: "string \<Rightarrow> go_error + string" where
  "Unmarshal_TranslationResponse data = unmarshal_field ''response'' data"

definition StatusOK :: nat where
  "StatusOK = 200"

definition default_llm_host :: string where
  "default_llm_host = ''http://localhost:11434/api/generate''"

definition default_translation_language :: string where
  "default_translation_language = ''en-US''"

definition segmentation_prompt :: "string \<Rightarrow> string" where
  "segmentation_prompt text =
     ''Divide the text below into small sections, each representing a particular ''
     @ ''thought or idea. Use grammar as a basis and avoid creating a section with ''
     @ ''a single word. You can break a phrase into subject and predicate.\<newline>\<newline>Example ''
     @ ''text:\<newline>\<newline>Hey, kannst du mir den heutigen Mittagsmen''
     @ [CHR 0xC3, CHR 0xBC]
     @ '' schicken? Ich bin gerade total eingebunden bei der Arbeit und schaffe es ''
     @ ''nicht reinzukommen.\<newline>\<newline>Example output:\<newline>\<newline>[\<newline>    \"Hey\",\<newline>    \"kannst du mir\",\<newline> ''
     @ ''   \"den heutigen Mittagsmen''
     @ [CHR 0xC3, CHR 0xBC]
     @ '' schicken?\",\<newline>    \"Ich bin gerade\",\<newline>    \"total eingebunden\",\<newline>    \"bei der ''
     @ ''Arbeit\",\<newline>    \"und\",\<newline>    \"schaffe es nicht reinzukommen.\"\<newline>]\<newline>\<newline>Actual text:\<newline>\<newline>''
     @ text
     @ ''\<newline>\<newline>Actual output:\<newline>\<newline>Provide only the JSON array as the output without any ''
     @ ''additional text or explanation.''"

definition translation_prompt :: "string \<Rightarrow> string \<Rightarrow> string" where
  "translation_prompt translationLanguage section' =
     ''Translate the following text to ''
     @ translationLanguage
     @ '':\<newline>\<newline>''
     @ section'
     @ ''\<newline>\<newline>Provide only the translation without any additional text or explanation.''"

subsection \<open>The command\<close>

text \<open>
  Lines 48 to 59: the endpoint is the flag \<^verbatim>\<open>llm-host\<close> if its value is not empty,
  else the environment variable if its value is not empty, else the default,
  which is announced on standard output.
\<close>

definition resolve_llm_host :: "flags \<Rightarrow> environ \<Rightarrow> 's process \<Rightarrow> string ctl \<times> 's process" where
  "resolve_llm_host fl env p =
     (case GetString fl ''llm-host'' of
        Inl err \<Rightarrow> (Exit 1, println_err ''Error retrieving llm-host flag:'' err p)
      | Inr llmHost \<Rightarrow>
          if llmHost = [] then
            (let llmHost = Getenv env ''STARTER_GO_CLI_LLM_HOST'' in
             if llmHost = [] then
               (let llmHost = default_llm_host in
                (Next llmHost, println (''Using default Ollama host: '' @ llmHost) p))
             else (Next llmHost, p))
          else (Next llmHost, p))"

text \<open>Lines 61 to 72: the same for the flag \<^verbatim>\<open>translation-language\<close>.\<close>

definition resolve_translation_language ::
  "flags \<Rightarrow> environ \<Rightarrow> 's process \<Rightarrow> string ctl \<times> 's process" where
  "resolve_translation_language fl env p =
     (case GetString fl ''translation-language'' of
        Inl err \<Rightarrow> (Exit 1, println_err ''Error retrieving language flag:'' err p)
      | Inr translationLanguage \<Rightarrow>
          if translationLanguage = [] then
            (let translationLanguage = Getenv env ''STARTER_GO_CLI_TRANSLATION_LANGUAGE'' in
             if translationLanguage = [] then
               (let translationLanguage = default_translation_language in
                (Next translationLanguage,
                 println (''Using default translation language: '' @ translationLanguage) p))
             else (Next translationLanguage, p))
          else (Next translationLanguage, p))"

text \<open>
  Lines 74 to 118: the segmentation request and the two decodings of its
  response, the envelope and then the array of sections inside it.
\<close>

definition segment :: "'s endpoint \<Rightarrow> string \<Rightarrow> string \<Rightarrow> 's process
                        \<Rightarrow> string slice ctl \<times> 's process" where
  "segment ep llmHost text p =
     (let prompt = segmentation_prompt text;
          payload = \<lparr>Model = ''llama3'', Prompt = prompt, Stream = False\<rparr>
      in case Marshal_payload payload of
           Inl err \<Rightarrow> (Exit 1, println_err ''Error marshalling request payload:'' err p)
         | Inr payloadBytes \<Rightarrow>
             (case http_Post ep llmHost ''application/json'' payloadBytes p of
                (Inl err, p1) \<Rightarrow> (Exit 1, println_err ''Error making HTTP request:'' err p1)
              | (Inr resp, p1) \<Rightarrow>
                  (case Body resp of
                     Inl err \<Rightarrow> (Exit 1, println_err ''Error reading response body:'' err p1)
                   | Inr body \<Rightarrow>
                       if StatusCode resp \<noteq> StatusOK then
                         (Exit 1,
                          println (''Error: received status code '' @ decimal (StatusCode resp)) p1)
                       else
                         (case Unmarshal_ResponsePayload body of
                            Inl err \<Rightarrow>
                              (Exit 1, println_err ''Error parsing JSON response:'' err p1)
                          | Inr responsePayload \<Rightarrow>
                              (case unmarshal_strings responsePayload of
                                 Inl err \<Rightarrow>
                                   (Exit 1, println_err ''Error parsing response array:'' err p1)
                               | Inr sections \<Rightarrow> (Next sections, p1))))))"

text \<open>Lines 123 to 164: the body of the loop, for one section.\<close>

definition translate :: "'s endpoint \<Rightarrow> string \<Rightarrow> string \<Rightarrow> string \<Rightarrow> 's process
                          \<Rightarrow> ResultItem ctl \<times> 's process" where
  "translate ep llmHost translationLanguage section' p =
     (let translationPrompt = translation_prompt translationLanguage section';
          translationPayload = \<lparr>Model = ''llama3'', Prompt = translationPrompt, Stream = False\<rparr>
      in case Marshal_payload translationPayload of
           Inl err \<Rightarrow>
             (Exit 1, println_err ''Error marshalling translation request payload:'' err p)
         | Inr translationPayloadBytes \<Rightarrow>
             (case http_Post ep llmHost ''application/json'' translationPayloadBytes p of
                (Inl err, p1) \<Rightarrow>
                  (Exit 1, println_err ''Error making HTTP request for translation:'' err p1)
              | (Inr translationResp, p1) \<Rightarrow>
                  (case Body translationResp of
                     Inl err \<Rightarrow>
                       (Exit 1, println_err ''Error reading translation response body:'' err p1)
                   | Inr translationBody \<Rightarrow>
                       if StatusCode translationResp \<noteq> StatusOK then
                         (Exit 1,
                          println (''Error: received status code ''
                                   @ decimal (StatusCode translationResp) @ '' for translation'') p1)
                       else
                         (case Unmarshal_TranslationResponse translationBody of
                            Inl err \<Rightarrow>
                              (Exit 1,
                               println_err ''Error parsing translation JSON response:'' err p1)
                          | Inr translationResponse \<Rightarrow>
                              (Next \<lparr>Source = section', Translation = translationResponse\<rparr>,
                               p1)))))"

text \<open>Lines 122 to 166: the loop over the sections, appending to \<^verbatim>\<open>results\<close>.\<close>

fun translate_sections :: "'s endpoint \<Rightarrow> string \<Rightarrow> string \<Rightarrow> string list \<Rightarrow> ResultItem slice
                             \<Rightarrow> 's process \<Rightarrow> ResultItem slice ctl \<times> 's process" where
  "translate_sections ep llmHost translationLanguage [] results p = (Next results, p)"
| "translate_sections ep llmHost translationLanguage (section' # sections) results p =
     (case translate ep llmHost translationLanguage section' p of
        (Exit code, p1) \<Rightarrow> (Exit code, p1)
      | (Next result, p1) \<Rightarrow>
          translate_sections ep llmHost translationLanguage sections
            (append_slice results result) p1)"

text \<open>
  The function \<^verbatim>\<open>Run\<close> of \<^verbatim>\<open>analiseCmd\<close> for the argument \<^verbatim>\<open>text\<close>: the exit status
  of the process (0 when \<^verbatim>\<open>Run\<close> returns) and its final state.
\<close>

definition Run :: "'s endpoint \<Rightarrow> flags \<Rightarrow> environ \<Rightarrow> string \<Rightarrow> 's process \<Rightarrow> nat \<times> 's process" where
  "Run ep fl env text p =
     (case resolve_llm_host fl env p of
        (Exit code, p1) \<Rightarrow> (code, p1)
      | (Next llmHost, p1) \<Rightarrow>
          (case resolve_translation_language fl env p1 of
             (Exit code, p2) \<Rightarrow> (code, p2)
           | (Next translationLanguage, p2) \<Rightarrow>
               (case segment ep llmHost text p2 of
                  (Exit code, p3) \<Rightarrow> (code, p3)
                | (Next sections, p3) \<Rightarrow>
                    (case translate_sections ep llmHost translationLanguage (elems sections)
                            NilSlice p3 of
                       (Exit code, p4) \<Rightarrow> (code, p4)
                     | (Next results, p4) \<Rightarrow>
                         (case MarshalIndent_results results [] ''    '' of
                            Inl err \<Rightarrow>
                              (1, println_err ''Error marshalling final results to JSON:'' err p4)
                          | Inr resultsJSON \<Rightarrow> (0, println resultsJSON p4))))))"

text \<open>
  The process: \<^verbatim>\<open>cobra.ExactArgs(1)\<close> rejects any other number of arguments
  before \<^verbatim>\<open>Run\<close> is called, and \<^verbatim>\<open>Execute\<close> then exits with status 1 (the usage
  error goes to standard error).
\<close>

definition Execute :: "'s endpoint \<Rightarrow> string list \<Rightarrow> flags \<Rightarrow> environ \<Rightarrow> 's \<Rightarrow> nat \<times> 's process" where
  "Execute ep args fl env s =
     (case args of [text] \<Rightarrow> Run ep fl env text (start s) | _ \<Rightarrow> (1, start s))"

section \<open>Notions used in the statements\<close>

text \<open>
  The endpoint and the language a run uses, by the three-tier lookup, and the
  lines that announce a default; the request a prompt is sent in; what a reply
  to the segmentation request and to a translation request yields, and the line
  the program prints when it yields nothing.
\<close>

definition endpoint_used :: "flags \<Rightarrow> environ \<Rightarrow> string" where
  "endpoint_used fl env =
     (if flag_value (llm_host fl) \<noteq> [] then flag_value (llm_host fl)
      else if Getenv env ''STARTER_GO_CLI_LLM_HOST'' \<noteq> []
      then Getenv env ''STARTER_GO_CLI_LLM_HOST''
      else ''http://localhost:11434/api/generate'')"

definition language_used :: "flags \<Rightarrow> environ \<Rightarrow> string" where
  "language_used fl env =
     (if flag_value (translation_language fl) \<noteq> [] then flag_value (translation_language fl)
      else if Getenv env ''STARTER_GO_CLI_TRANSLATION_LANGUAGE'' \<noteq> []
      then Getenv env ''STARTER_GO_CLI_TRANSLATION_LANGUAGE''
      else ''en-US'')"

definition host_notice :: "flags \<Rightarrow> environ \<Rightarrow> line list" where
  "host_notice fl env =
     (if flag_value (llm_host fl) = [] \<and> Getenv env ''STARTER_GO_CLI_LLM_HOST'' = []
      then [Println ''Using default Ollama host: http://localhost:11434/api/generate'']
      else [])"

definition language_notice :: "flags \<Rightarrow> environ \<Rightarrow> line list" where
  "language_notice fl env =
     (if flag_value (translation_language fl) = []
         \<and> Getenv env ''STARTER_GO_CLI_TRANSLATION_LANGUAGE'' = []
      then [Println ''Using default translation language: en-US'']
      else [])"

definition notices :: "flags \<Rightarrow> environ \<Rightarrow> line list" where
  "notices fl env = host_notice fl env @ language_notice fl env"

definition generation_request :: "string \<Rightarrow> string \<Rightarrow> request" where
  "generation_request llmHost prompt =
     \<lparr>URL = llmHost, ContentType = ''application/json'',
      Payload = compact (payload_json \<lparr>Model = ''llama3'', Prompt = prompt, Stream = False\<rparr>)\<rparr>"

definition printed :: "line list \<Rightarrow> 's process \<Rightarrow> 's process" where
  "printed ls p = p\<lparr>stdout := stdout p @ ls\<rparr>"

definition called :: "'s endpoint \<Rightarrow> request \<Rightarrow> 's process \<Rightarrow> 's process" where
  "called ep rq p =
     p\<lparr>exchanges := exchanges p @ [(rq, fst (ep (remote p) rq))], remote := snd (ep (remote p) rq)\<rparr>"

definition segmented :: "go_error + response \<Rightarrow> string slice option" where
  "segmented r =
     (case r of
        Inl err \<Rightarrow> None
      | Inr resp \<Rightarrow>
          (case Body resp of
             Inl err \<Rightarrow> None
           | Inr body \<Rightarrow>
               if StatusCode resp \<noteq> StatusOK then None
               else (case Unmarshal_ResponsePayload body of
                       Inl err \<Rightarrow> None
                     | Inr inner \<Rightarrow>
                         (case unmarshal_strings inner of
                            Inl err \<Rightarrow> None
                          | Inr sections \<Rightarrow> Some sections))))"

definition segmentation_failure :: "go_error + response \<Rightarrow> line" where
  "segmentation_failure r =
     (case r of
        Inl err \<Rightarrow> PrintlnErr ''Error making HTTP request:'' err
      | Inr resp \<Rightarrow>
          (case Body resp of
             Inl err \<Rightarrow> PrintlnErr ''Error reading response body:'' err
           | Inr body \<Rightarrow>
               if StatusCode resp \<noteq> StatusOK
               then Println (''Error: received status code '' @ decimal (StatusCode resp))
               else (case Unmarshal_ResponsePayload body of
                       Inl err \<Rightarrow> PrintlnErr ''Error parsing JSON response:'' err
                     | Inr inner \<Rightarrow>
                         (case unmarshal_strings inner of
                            Inl err \<Rightarrow> PrintlnErr ''Error parsing response array:'' err
                          | Inr sections \<Rightarrow> Println []))))"

definition translated :: "go_error + response \<Rightarrow> string option" where
  "translated r =
     (case r of
        Inl err \<Rightarrow> None
      | Inr resp \<Rightarrow>
          (case Body resp of
             Inl err \<Rightarrow> None
           | Inr body \<Rightarrow>
               if StatusCode resp \<noteq> StatusOK then None
               else (case Unmarshal_TranslationResponse body of
                       Inl err \<Rightarrow> None
                     | Inr translation \<Rightarrow> Some translation)))"

definition translation_failure :: "go_error + response \<Rightarrow> line" where
  "translation_failure r =
     (case r of
        Inl err \<Rightarrow> PrintlnErr ''Error making HTTP request for translation:'' err
      | Inr resp \<Rightarrow>
          (case Body resp of
             Inl err \<Rightarrow> PrintlnErr ''Error reading translation response body:'' err
           | Inr body \<Rightarrow>
               if StatusCode resp \<noteq> StatusOK
               then Println (''Error: received status code '' @ decimal (StatusCode resp)
                             @ '' for translation'')
               else (case Unmarshal_TranslationResponse body of
                       Inl err \<Rightarrow> PrintlnErr ''Error parsing translation JSON response:'' err
                     | Inr translation \<Rightarrow> Println [])))"

definition item :: "string \<Rightarrow> request \<times> (go_error + response) \<Rightarrow> ResultItem" where
  "item section' x =
     \<lparr>Source = section',
      Translation = (case translated (snd x) of None \<Rightarrow> [] | Some translation \<Rightarrow> translation)\<rparr>"

text \<open>
  A stub for the world: it answers the calls with the replies of a queue, in
  order, whatever the request, and refuses the connection when the queue is
  empty.  \<open>ok body\<close> is a response with status 200 and the given body.
\<close>

definition replay :: "(go_error + response) list endpoint" where
  "replay queue rq =
     (case queue of [] \<Rightarrow> (Inl (TransportError ''connection refused''), []) | r # rs \<Rightarrow> (r, rs))"

definition ok :: "string \<Rightarrow> go_error + response" where
  "ok body = Inr (HttpResponse 200 (Inr body))"

text \<open>
  The body the stub returns for the segmentation call in claim C1: the envelope
  whose \<^verbatim>\<open>response\<close> is the text of the array of \<open>a\<close> and \<open>b\<close>, its quotes escaped.
\<close>

definition segmentation_body :: string where
  "segmentation_body = ''{\"response\": \"['' @ BSL # ''\"a'' @ BSL # ''\",'' @ BSL # ''\"b'' @ BSL # ''\"]\"}''"

text \<open>
  The inner texts the decoder of \<^verbatim>\<open>[]string\<close> rejects, stated on the JSON value:
  a text that is not well-formed JSON, and a value that is neither \<^verbatim>\<open>null\<close> nor an
  array whose elements are strings or \<^verbatim>\<open>null\<close>.
\<close>

fun string_or_null :: "json \<Rightarrow> bool" where
  "string_or_null (JString s) = True"
| "string_or_null JNull = True"
| "string_or_null _ = False"

definition rejected_sections :: "string \<Rightarrow> bool" where
  "rejected_sections inner =
     (case parse_json inner of
        None \<Rightarrow> True
      | Some JNull \<Rightarrow> False
      | Some (JArray vs) \<Rightarrow> \<not> list_all string_or_null vs
      | Some _ \<Rightarrow> True)"

section \<open>The steps of the program, one equation each\<close>

lemma resolve_llm_host_eq:
  "resolve_llm_host fl env p = (Next (endpoint_used fl env), printed (host_notice fl env) p)"
  by (simp add: resolve_llm_host_def GetString_def endpoint_used_def printed_def println_def
                default_llm_host_def host_notice_def Let_def)

lemma resolve_translation_language_eq:
  "resolve_translation_language fl env p =
     (Next (language_used fl env), printed (language_notice fl env) p)"
  by (simp add: resolve_translation_language_def GetString_def language_used_def printed_def
                println_def default_translation_language_def language_notice_def Let_def)

lemma printed_printed: "printed b (printed a p) = printed (a @ b) p"
  by (simp add: printed_def)

lemma Run_resolved:
  "Run ep fl env text p =
     (case segment ep (endpoint_used fl env) text (printed (notices fl env) p) of
        (Exit code, p3) \<Rightarrow> (code, p3)
      | (Next sections, p3) \<Rightarrow>
          (case translate_sections ep (endpoint_used fl env) (language_used fl env)
                  (elems sections) NilSlice p3 of
             (Exit code, p4) \<Rightarrow> (code, p4)
           | (Next results, p4) \<Rightarrow>
               (0, println (indented [] ''    '' 0 (results_json results)) p4)))"
  by (simp add: Run_def resolve_llm_host_eq resolve_translation_language_eq printed_printed
                notices_def MarshalIndent_results_def split: prod.splits ctl.splits)

lemma http_Post_eq:
  "http_Post ep u ''application/json'' b p =
     (fst (ep (remote p) \<lparr>URL = u, ContentType = ''application/json'', Payload = b\<rparr>),
      called ep \<lparr>URL = u, ContentType = ''application/json'', Payload = b\<rparr> p)"
  by (simp add: http_Post_def called_def Let_def split: prod.splits)

lemma segment_eq:
  "segment ep llmHost text p =
     (let rq = generation_request llmHost (segmentation_prompt text);
          r = fst (ep (remote p) rq)
      in case segmented r of
           None \<Rightarrow> (Exit 1, printed [segmentation_failure r] (called ep rq p))
         | Some sections \<Rightarrow> (Next sections, called ep rq p))"
  by (simp add: segment_def Marshal_payload_def http_Post_eq generation_request_def Let_def
                segmented_def segmentation_failure_def printed_def println_def println_err_def
           split: sum.splits)

lemma translate_eq:
  "translate ep llmHost translationLanguage section' p =
     (let rq = generation_request llmHost (translation_prompt translationLanguage section');
          r = fst (ep (remote p) rq)
      in case translated r of
           None \<Rightarrow> (Exit 1, printed [translation_failure r] (called ep rq p))
         | Some translation \<Rightarrow>
             (Next \<lparr>Source = section', Translation = translation\<rparr>, called ep rq p))"
  by (simp add: translate_def Marshal_payload_def http_Post_eq generation_request_def Let_def
                translated_def translation_failure_def printed_def println_def println_err_def
           split: sum.splits)

lemma called_simps [simp]:
  "stdout (called ep rq p) = stdout p"
  "exchanges (called ep rq p) = exchanges p @ [(rq, fst (ep (remote p) rq))]"
  "remote (called ep rq p) = snd (ep (remote p) rq)"
  by (simp_all add: called_def)

lemma printed_simps [simp]:
  "stdout (printed ls p) = stdout p @ ls"
  "exchanges (printed ls p) = exchanges p"
  "remote (printed ls p) = remote p"
  by (simp_all add: printed_def)

lemma println_simps [simp]:
  "stdout (println s p) = stdout p @ [Println s]"
  "exchanges (println s p) = exchanges p"
  "remote (println s p) = remote p"
  by (simp_all add: println_def)

lemma translate_sections_cases:
  "translate_sections ep h l secs results p = (c, p') \<Longrightarrow>
   \<exists>new. exchanges p' = exchanges p @ new
     \<and> map fst new = map (\<lambda>sec. generation_request h (translation_prompt l sec))
                        (take (length new) secs)
     \<and> (case c of
          Next rs \<Rightarrow>
            stdout p' = stdout p \<and> length new = length secs
            \<and> list_all (\<lambda>x. translated (snd x) \<noteq> None) new
            \<and> rs = foldl append_slice results (map2 item secs new)
        | Exit code \<Rightarrow>
            code = 1 \<and> new \<noteq> [] \<and> length new \<le> length secs
            \<and> list_all (\<lambda>x. translated (snd x) \<noteq> None) (butlast new)
            \<and> translated (snd (last new)) = None
            \<and> stdout p' = stdout p @ [translation_failure (snd (last new))])"
proof (induction secs arbitrary: results p)
  case Nil
  then show ?case by auto
next
  case (Cons sec secs)
  define rq where "rq = generation_request h (translation_prompt l sec)"
  define r where "r = fst (ep (remote p) rq)"
  show ?case
  proof (cases "translated r")
    case None
    with Cons.prems have c: "c = Exit 1" and p': "p' = printed [translation_failure r] (called ep rq p)"
      by (simp_all add: translate_eq rq_def r_def Let_def)
    show ?thesis
      by (rule exI[of _ "[(rq, r)]"]) (simp add: c p' r_def rq_def None[unfolded r_def rq_def])
  next
    case (Some t)
    with Cons.prems have rec:
      "translate_sections ep h l secs
         (append_slice results \<lparr>Source = sec, Translation = t\<rparr>) (called ep rq p) = (c, p')"
      by (simp add: translate_eq rq_def r_def Let_def)
    from Cons.IH[OF rec] obtain new where new:
      "exchanges p' = exchanges (called ep rq p) @ new"
      "map fst new = map (\<lambda>sec. generation_request h (translation_prompt l sec))
                        (take (length new) secs)"
      "(case c of
          Next rs \<Rightarrow>
            stdout p' = stdout (called ep rq p) \<and> length new = length secs
            \<and> list_all (\<lambda>x. translated (snd x) \<noteq> None) new
            \<and> rs = foldl append_slice (append_slice results \<lparr>Source = sec, Translation = t\<rparr>)
                     (map2 item secs new)
        | Exit code \<Rightarrow>
            code = 1 \<and> new \<noteq> [] \<and> length new \<le> length secs
            \<and> list_all (\<lambda>x. translated (snd x) \<noteq> None) (butlast new)
            \<and> translated (snd (last new)) = None
            \<and> stdout p' = stdout (called ep rq p) @ [translation_failure (snd (last new))])"
      by blast
    have it: "item sec (rq, r) = \<lparr>Source = sec, Translation = t\<rparr>"
      by (simp add: item_def Some)
    show ?thesis
      apply (rule exI[of _ "(rq, r) # new"])
      using new Some it
      by (cases c) (auto simp: r_def rq_def)
  qed
qed

text \<open>
  The requests of a run: the segmentation request first, then translation
  requests for sections, all to the endpoint the lookup gives and all naming the
  language the lookup gives.
\<close>

lemma Run_requests:
  "\<exists>secs. map fst (exchanges (snd (Run ep fl env text (start s)))) =
      generation_request (endpoint_used fl env) (segmentation_prompt text)
      # map (\<lambda>sec. generation_request (endpoint_used fl env)
                     (translation_prompt (language_used fl env) sec)) secs"
proof -
  define h where "h = endpoint_used fl env"
  define l where "l = language_used fl env"
  define p0 where "p0 = printed (notices fl env) (start s)"
  define rq where "rq = generation_request h (segmentation_prompt text)"
  define r where "r = fst (ep (remote p0) rq)"
  have ex0: "exchanges p0 = []" by (simp add: p0_def start_def)
  show ?thesis
  proof (cases "segmented r")
    case None
    then have "exchanges (snd (Run ep fl env text (start s))) = [(rq, r)]"
      by (simp add: Run_resolved segment_eq Let_def h_def[symmetric] p0_def[symmetric]
                    rq_def[symmetric] r_def[symmetric] ex0)
    then show ?thesis
      by (intro exI[of _ "[]"]) (simp add: rq_def h_def)
  next
    case (Some sections)
    obtain c p' where loop:
      "translate_sections ep h l (elems sections) NilSlice (called ep rq p0) = (c, p')"
      by (cases "translate_sections ep h l (elems sections) NilSlice (called ep rq p0)")
    from translate_sections_cases[OF loop] obtain new where new:
      "exchanges p' = exchanges (called ep rq p0) @ new"
      "map fst new = map (\<lambda>sec. generation_request h (translation_prompt l sec))
                        (take (length new) (elems sections))"
      by blast
    have "exchanges (snd (Run ep fl env text (start s))) = exchanges p'"
      using Some loop
      by (cases c)
         (simp_all add: Run_resolved segment_eq Let_def h_def[symmetric] l_def[symmetric]
                        p0_def[symmetric] rq_def[symmetric] r_def[symmetric])
    with new show ?thesis
      by (intro exI[of _ "take (length new) (elems sections)"])
         (simp add: ex0 h_def l_def rq_def)
  qed
qed

lemma empty_flag_lookup:
  "endpoint_used (fl\<lparr>llm_host := Some []\<rparr>) env = endpoint_used (fl\<lparr>llm_host := None\<rparr>) env"
  "language_used (fl\<lparr>llm_host := Some []\<rparr>) env = language_used (fl\<lparr>llm_host := None\<rparr>) env"
  "notices (fl\<lparr>llm_host := Some []\<rparr>) env = notices (fl\<lparr>llm_host := None\<rparr>) env"
  "endpoint_used (fl\<lparr>translation_language := Some []\<rparr>) env
   = endpoint_used (fl\<lparr>translation_language := None\<rparr>) env"
  "language_used (fl\<lparr>translation_language := Some []\<rparr>) env
   = language_used (fl\<lparr>translation_language := None\<rparr>) env"
  "notices (fl\<lparr>translation_language := Some []\<rparr>) env
   = notices (fl\<lparr>translation_language := None\<rparr>) env"
  by (simp_all add: endpoint_used_def language_used_def notices_def host_notice_def
                    language_notice_def flag_value_def)

text \<open>The decoders and the encoder on the texts of the examples.\<close>

lemma decode_segmentation_body:
  "Unmarshal_ResponsePayload segmentation_body = Inr ''[\"a\",\"b\"]''"
  by code_simp

lemma decode_sections_a_b: "unmarshal_strings ''[\"a\",\"b\"]'' = Inr (Slice [''a'', ''b''])"
  by code_simp

lemma decode_translation_A: "Unmarshal_TranslationResponse ''{\"response\": \"A\"}'' = Inr ''A''"
  by code_simp

lemma decode_translation_B: "Unmarshal_TranslationResponse ''{\"response\": \"B\"}'' = Inr ''B''"
  by code_simp

lemma encode_a_b:
  "indented [] ''    '' 0
     (results_json (Slice [\<lparr>Source = ''a'', Translation = ''A''\<rparr>,
                           \<lparr>Source = ''b'', Translation = ''B''\<rparr>])) =
   ''[\<newline>    {\<newline>        \"source\": \"a\",\<newline>        \"translation\": \"A\"\<newline>    },\<newline>    {\<newline>        \"source\": \"b\",\<newline>        \"translation\": \"B\"\<newline>    }\<newline>]''"
  by code_simp

lemma parse_a_b:
  "parse_json ''[\<newline>    {\<newline>        \"source\": \"a\",\<newline>        \"translation\": \"A\"\<newline>    },\<newline>    {\<newline>        \"source\": \"b\",\<newline>        \"translation\": \"B\"\<newline>    }\<newline>]''
   = Some (JArray [JObject [(''source'', JString ''a''), (''translation'', JString ''A'')],
                   JObject [(''source'', JString ''b''), (''translation'', JString ''B'')]])"
  by code_simp

lemma parse_compact_a_b:
  "parse_json ''[{\"source\":\"a\",\"translation\":\"A\"},{\"source\":\"b\",\"translation\":\"B\"}]''
   = Some (JArray [JObject [(''source'', JString ''a''), (''translation'', JString ''A'')],
                   JObject [(''source'', JString ''b''), (''translation'', JString ''B'')]])"
  by code_simp

lemma string_element_iff: "(string_element v \<noteq> None) = string_or_null v"
  by (cases v) simp_all

lemma rejected_sections_eq:
  assumes "rejected_sections inner"
  shows "unmarshal_strings inner
         = Inl (if parse_json inner = None then SyntaxError else UnmarshalTypeError)"
proof -
  have eq: "list_all (\<lambda>v. string_element v \<noteq> None) vs = list_all string_or_null vs" for vs
    by (simp only: string_element_iff)
  from assms show ?thesis
    unfolding rejected_sections_def unmarshal_strings_def eq
    by (auto split: option.splits json.splits)
qed


section \<open>The claims\<close>

subsection \<open>The resolution of the endpoint and of the language\<close>

text \<open>
  Claim C7, as the program has it.  The endpoint and the translation language
  are each found by a lookup in three tiers, the flag, then the environment
  variable (\<^verbatim>\<open>STARTER_GO_CLI_LLM_HOST\<close>, \<^verbatim>\<open>STARTER_GO_CLI_TRANSLATION_LANGUAGE\<close>),
  then the literal default (\<^verbatim>\<open>http://localhost:11434/api/generate\<close>, \<^verbatim>\<open>en-US\<close>),
  where a tier counts only if its value is not the empty string: a flag with a
  non-empty value wins over the environment variable; with no flag and no
  variable the defaults are used.  Every request of the run goes to that
  endpoint, and every translation prompt names that language.
\<close>

theorem resolution_order:
  "\<exists>secs. map fst (exchanges (snd (Run ep fl env text (start s)))) =
      generation_request
        (if flag_value (llm_host fl) \<noteq> [] then flag_value (llm_host fl)
         else if Getenv env ''STARTER_GO_CLI_LLM_HOST'' \<noteq> []
         then Getenv env ''STARTER_GO_CLI_LLM_HOST''
         else ''http://localhost:11434/api/generate'')
        (segmentation_prompt text)
      # map (\<lambda>sec. generation_request
                     (if flag_value (llm_host fl) \<noteq> [] then flag_value (llm_host fl)
                      else if Getenv env ''STARTER_GO_CLI_LLM_HOST'' \<noteq> []
                      then Getenv env ''STARTER_GO_CLI_LLM_HOST''
                      else ''http://localhost:11434/api/generate'')
                     (translation_prompt
                        (if flag_value (translation_language fl) \<noteq> []
                         then flag_value (translation_language fl)
                         else if Getenv env ''STARTER_GO_CLI_TRANSLATION_LANGUAGE'' \<noteq> []
                         then Getenv env ''STARTER_GO_CLI_TRANSLATION_LANGUAGE''
                         else ''en-US'')
                        sec)) secs"
  using Run_requests[of ep fl env "text" s]
  unfolding endpoint_used_def language_used_def by this

text \<open>
  The claim says that a flag that is set always wins.  A flag set to the empty
  string does not: the request goes to the endpoint of the environment variable.
\<close>

theorem set_flag_counterexample:
  "llm_host \<lparr>llm_host = Some [], translation_language = None\<rparr> = Some []
   \<and> map (\<lambda>x. URL (fst x))
         (exchanges (snd (Run replay \<lparr>llm_host = Some [], translation_language = None\<rparr>
                            [''STARTER_GO_CLI_LLM_HOST'' \<mapsto> ''http://env.example/api/generate'']
                            ''Hallo'' (start []))))
       = [''http://env.example/api/generate'']"
  by (simp add: Run_resolved segment_eq Let_def replay_def segmented_def endpoint_used_def
                flag_value_def Getenv_def generation_request_def start_def)

text \<open>
  Claim C10.  A flag given with the empty string as its value is a flag that was
  not given: the process behaves the same in every respect, for either flag.
\<close>

theorem empty_flag_is_absent_flag:
  "Execute ep args (fl\<lparr>llm_host := Some []\<rparr>) env s = Execute ep args (fl\<lparr>llm_host := None\<rparr>) env s
   \<and> Execute ep args (fl\<lparr>translation_language := Some []\<rparr>) env s
       = Execute ep args (fl\<lparr>translation_language := None\<rparr>) env s"
  unfolding Execute_def Run_resolved empty_flag_lookup by simp

subsection \<open>Failures\<close>

text \<open>
  Claim C6.  For every input text, if the segmentation request fails in
  \<^verbatim>\<open>http.Post\<close> (the connection is refused, the call times out, the name does not
  resolve), the process exits with status 1; standard output holds the notices of
  the defaults and then the line \<^verbatim>\<open>Error making HTTP request:\<close> with the error,
  and nothing else, so no JSON; no further request is made.
\<close>

theorem transport_failure:
  assumes "fst (ep s (generation_request (endpoint_used fl env) (segmentation_prompt text)))
           = Inl err"
  shows "Run ep fl env text (start s) =
           (1, \<lparr>stdout = notices fl env @ [PrintlnErr ''Error making HTTP request:'' err],
               exchanges = [(generation_request (endpoint_used fl env) (segmentation_prompt text),
                             Inl err)],
               remote = snd (ep s (generation_request (endpoint_used fl env)
                                     (segmentation_prompt text)))\<rparr>)"
  using assms
  by (simp add: Run_resolved segment_eq Let_def segmented_def segmentation_failure_def
                printed_def called_def start_def)

theorem transport_failure_witness:
  "Run replay \<lparr>llm_host = None, translation_language = None\<rparr> Map.empty ''Hallo'' (start []) =
     (1, \<lparr>stdout =
            [Println ''Using default Ollama host: http://localhost:11434/api/generate'',
             Println ''Using default translation language: en-US'',
             PrintlnErr ''Error making HTTP request:'' (TransportError ''connection refused'')],
          exchanges =
            [(generation_request ''http://localhost:11434/api/generate''
                (segmentation_prompt ''Hallo''),
              Inl (TransportError ''connection refused''))],
          remote = []\<rparr>)"
  using transport_failure[of replay "[]" "\<lparr>llm_host = None, translation_language = None\<rparr>"
                            Map.empty "''Hallo''" "TransportError ''connection refused''"]
  by (simp add: replay_def endpoint_used_def notices_def host_notice_def language_notice_def
                flag_value_def Getenv_def)

subsection \<open>The stubbed run\<close>

text \<open>
  Claim C1.  A stub answers the segmentation call with the body
  \<^verbatim>\<open>{"response": "[\"a\",\"b\"]"}\<close> and the two translation calls with the envelopes of
  \<open>A\<close> and \<open>B\<close>.  The run exits with status 0, makes the three calls in this order
  (the segmentation request, the translation request for \<open>a\<close>, the one for \<open>b\<close>),
  and prints, after the notices of the defaults, the indented array of the two
  items, \<open>a\<close> with \<open>A\<close> first and \<open>b\<close> with \<open>B\<close> second; the printed text is JSON
  for the same value as the list of the claim.
\<close>

theorem stubbed_pipeline:
  "Run replay fl env text
     (start [ok segmentation_body, ok ''{\"response\": \"A\"}'', ok ''{\"response\": \"B\"}'']) =
   (0, \<lparr>stdout = notices fl env @
          [Println ''[\<newline>    {\<newline>        \"source\": \"a\",\<newline>        \"translation\": \"A\"\<newline>    },\<newline>    {\<newline>        \"source\": \"b\",\<newline>        \"translation\": \"B\"\<newline>    }\<newline>]''],
        exchanges =
          [(generation_request (endpoint_used fl env) (segmentation_prompt text),
            ok segmentation_body),
           (generation_request (endpoint_used fl env)
              (translation_prompt (language_used fl env) ''a''),
            ok ''{\"response\": \"A\"}''),
           (generation_request (endpoint_used fl env)
              (translation_prompt (language_used fl env) ''b''),
            ok ''{\"response\": \"B\"}'')],
        remote = []\<rparr>)
   \<and> parse_json ''[\<newline>    {\<newline>        \"source\": \"a\",\<newline>        \"translation\": \"A\"\<newline>    },\<newline>    {\<newline>        \"source\": \"b\",\<newline>        \"translation\": \"B\"\<newline>    }\<newline>]''
     = parse_json ''[{\"source\":\"a\",\"translation\":\"A\"},{\"source\":\"b\",\"translation\":\"B\"}]''"
  by (simp add: Run_resolved segment_eq translate_eq Let_def replay_def ok_def segmented_def
                translated_def StatusOK_def decode_segmentation_body decode_sections_a_b
                decode_translation_A decode_translation_B encode_a_b parse_a_b parse_compact_a_b
                called_def printed_def println_def start_def)

subsection \<open>Decoding\<close>

text \<open>
  Claim C9.  If the inner text of the segmentation response is an empty JSON
  array, the run makes no translation call, prints the line \<^verbatim>\<open>null\<close> (after the
  notices of the defaults) and exits with status 0; the line is the four bytes
  \<^verbatim>\<open>null\<close> and a newline, not \<^verbatim>\<open>[]\<close>.
\<close>

theorem empty_segment_list_prints_null:
  assumes "fst (ep s (generation_request (endpoint_used fl env) (segmentation_prompt text)))
           = Inr (HttpResponse 200 (Inr body))"
    and "Unmarshal_ResponsePayload body = Inr inner"
    and "parse_json inner = Some (JArray [])"
  shows "Run ep fl env text (start s) =
           (0, \<lparr>stdout = notices fl env @ [Println ''null''],
               exchanges = [(generation_request (endpoint_used fl env) (segmentation_prompt text),
                             Inr (HttpResponse 200 (Inr body)))],
               remote = snd (ep s (generation_request (endpoint_used fl env)
                                     (segmentation_prompt text)))\<rparr>)
         \<and> render_line msg (Println ''null'') = ''null'' @ [NL]"
  using assms
  by (simp add: Run_resolved segment_eq Let_def segmented_def StatusOK_def unmarshal_strings_def
                results_json_def printed_def called_def println_def start_def)

theorem empty_segment_list_prints_null_witness:
  "Run replay \<lparr>llm_host = Some ''http://stub.test/api'', translation_language = Some ''pt-BR''\<rparr>
       Map.empty ''Hallo'' (start [ok ''{\"response\": \"[]\"}'']) =
     (0, \<lparr>stdout = [Println ''null''],
          exchanges = [(generation_request ''http://stub.test/api'' (segmentation_prompt ''Hallo''),
                        ok ''{\"response\": \"[]\"}'')],
          remote = []\<rparr>)"
proof -
  have d: "Unmarshal_ResponsePayload ''{\"response\": \"[]\"}'' = Inr ''[]''" by code_simp
  have p: "parse_json ''[]'' = Some (JArray [])" by code_simp
  have r: "fst (replay [ok ''{\"response\": \"[]\"}'']
                 (generation_request
                    (endpoint_used \<lparr>llm_host = Some ''http://stub.test/api'',
                                     translation_language = Some ''pt-BR''\<rparr> Map.empty)
                    (segmentation_prompt ''Hallo'')))
           = Inr (HttpResponse 200 (Inr ''{\"response\": \"[]\"}''))"
    by (simp add: replay_def ok_def)
  show ?thesis
    using empty_segment_list_prints_null[of replay "[ok ''{\"response\": \"[]\"}'']"
            "\<lparr>llm_host = Some ''http://stub.test/api'', translation_language = Some ''pt-BR''\<rparr>"
            Map.empty "''Hallo''" "''{\"response\": \"[]\"}''" "''[]''"] r d p
    by (simp add: replay_def ok_def endpoint_used_def notices_def host_notice_def
                  language_notice_def flag_value_def)
qed

text \<open>
  Claim C4, as the program has it.  If the envelope of the segmentation response
  decodes and its inner text is one the decoder of \<^verbatim>\<open>[]string\<close> rejects (text
  that is not well-formed JSON, such as \<^verbatim>\<open>not json\<close>, or a value that is neither
  \<^verbatim>\<open>null\<close> nor an array of strings and \<^verbatim>\<open>null\<close>s), the run exits with status 1
  after the single call, and standard output holds the notices of the defaults
  and the line \<^verbatim>\<open>Error parsing response array:\<close> with the decoder's error: no
  translation call and no result item.
\<close>

theorem undecodable_sections:
  assumes "fst (ep s (generation_request (endpoint_used fl env) (segmentation_prompt text)))
           = Inr (HttpResponse 200 (Inr body))"
    and "Unmarshal_ResponsePayload body = Inr inner"
    and "rejected_sections inner"
  shows "Run ep fl env text (start s) =
           (1, \<lparr>stdout = notices fl env @
                   [PrintlnErr ''Error parsing response array:''
                      (if parse_json inner = None then SyntaxError else UnmarshalTypeError)],
               exchanges = [(generation_request (endpoint_used fl env) (segmentation_prompt text),
                             Inr (HttpResponse 200 (Inr body)))],
               remote = snd (ep s (generation_request (endpoint_used fl env)
                                     (segmentation_prompt text)))\<rparr>)"
  using assms(1,2) rejected_sections_eq[OF assms(3)]
  by (simp add: Run_resolved segment_eq Let_def segmented_def segmentation_failure_def
                StatusOK_def printed_def called_def start_def)

theorem undecodable_sections_witness:
  "Run replay \<lparr>llm_host = Some ''http://stub.test/api'', translation_language = Some ''pt-BR''\<rparr>
       Map.empty ''Hallo'' (start [ok ''{\"response\": \"not json\"}'', ok ''{\"response\": \"A\"}'']) =
     (1, \<lparr>stdout = [PrintlnErr ''Error parsing response array:'' SyntaxError],
          exchanges = [(generation_request ''http://stub.test/api'' (segmentation_prompt ''Hallo''),
                        ok ''{\"response\": \"not json\"}'')],
          remote = [ok ''{\"response\": \"A\"}'']\<rparr>)"
proof -
  have d: "Unmarshal_ResponsePayload ''{\"response\": \"not json\"}'' = Inr ''not json''"
    by code_simp
  have p: "parse_json ''not json'' = None" by code_simp
  then have j: "rejected_sections ''not json''" by (simp add: rejected_sections_def)
  have r: "fst (replay [ok ''{\"response\": \"not json\"}'', ok ''{\"response\": \"A\"}'']
                 (generation_request
                    (endpoint_used \<lparr>llm_host = Some ''http://stub.test/api'',
                                     translation_language = Some ''pt-BR''\<rparr> Map.empty)
                    (segmentation_prompt ''Hallo'')))
           = Inr (HttpResponse 200 (Inr ''{\"response\": \"not json\"}''))"
    by (simp add: replay_def ok_def)
  show ?thesis
    using undecodable_sections[of replay
            "[ok ''{\"response\": \"not json\"}'', ok ''{\"response\": \"A\"}'']"
            "\<lparr>llm_host = Some ''http://stub.test/api'', translation_language = Some ''pt-BR''\<rparr>"
            Map.empty "''Hallo''" "''{\"response\": \"not json\"}''" "''not json''"] r d j p
    by (simp add: replay_def ok_def endpoint_used_def notices_def host_notice_def
                  language_notice_def flag_value_def)
qed

text \<open>
  The claim speaks of every inner text that is not an array of strings.  The
  inner text \<^verbatim>\<open>null\<close> is not an array, and the run succeeds on it: the decoder
  leaves the slice nil, no translation is requested and \<^verbatim>\<open>null\<close> is printed.
\<close>

theorem null_sections_counterexample:
  "Unmarshal_ResponsePayload ''{\"response\": \"null\"}'' = Inr ''null''
   \<and> parse_json ''null'' = Some JNull
   \<and> Run replay \<lparr>llm_host = Some ''http://stub.test/api'', translation_language = Some ''pt-BR''\<rparr>
         Map.empty ''Hallo'' (start [ok ''{\"response\": \"null\"}'']) =
       (0, \<lparr>stdout = [Println ''null''],
            exchanges = [(generation_request ''http://stub.test/api''
                            (segmentation_prompt ''Hallo''),
                          ok ''{\"response\": \"null\"}'')],
            remote = []\<rparr>)"
proof -
  have d: "Unmarshal_ResponsePayload ''{\"response\": \"null\"}'' = Inr ''null''" by code_simp
  have p: "parse_json ''null'' = Some JNull" by code_simp
  have u: "unmarshal_strings ''null'' = Inr NilSlice" by code_simp
  show ?thesis
    by (simp add: d p u Run_resolved segment_eq Let_def segmented_def StatusOK_def replay_def
                  ok_def results_json_def printed_def called_def println_def start_def
                  endpoint_used_def notices_def host_notice_def language_notice_def
                  flag_value_def)
qed



end
